theory Spec2Isabelle
  imports Main "HOL-Library.Sublist"
begin

section \<open>Python strings\<close>

text \<open>
  A Python \<open>str\<close> is a sequence of Unicode code points. The markers of the program are
  emoji beyond the 8-bit range of \<open>char\<close>, so a string is modelled as the list of its
  code points; an ASCII literal of the source is written \<open>ascii ''...''\<close>.
\<close>

type_synonym codepoint = nat
type_synonym str = "codepoint list"

definition ascii :: "string \<Rightarrow> str" where
  "ascii s = map of_char s"

text \<open>\<open>needle in hay\<close>: substring containment.\<close>

fun isin :: "str \<Rightarrow> str \<Rightarrow> bool" where
  "isin needle [] = (needle = [])"
| "isin needle (c # cs) = (prefix needle (c # cs) \<or> isin needle cs)"

text \<open>
  \<open>s.replace(old, new)\<close>: every non-overlapping occurrence of \<open>old\<close>, found from the
  left, becomes \<open>new\<close>. For the empty \<open>old\<close> Python puts \<open>new\<close> before every
  character and at the end.
\<close>

fun replace :: "str \<Rightarrow> str \<Rightarrow> str \<Rightarrow> str" where
  "replace s [] new = new @ concat (map (\<lambda>c. c # new) s)"
| "replace [] (a # old) new = []"
| "replace (c # cs) (a # old) new =
     (if prefix (a # old) (c # cs) then new @ replace (drop (length old) cs) (a # old) new
      else c # replace cs (a # old) new)"

text \<open>
  \<open>s.split(sep)\<close> for a non-empty separator: the fields between the non-overlapping
  occurrences of \<open>sep\<close>, found from the left; \<open>cur\<close> is the field being read. Every
  call of the program passes a non-empty literal (for the empty separator Python raises
  ValueError, which no call can reach; the model then returns the string unsplit).
\<close>

fun split_from :: "str \<Rightarrow> str \<Rightarrow> str \<Rightarrow> str list" where
  "split_from cur [] sep = [cur]"
| "split_from cur (c # cs) [] = [cur @ c # cs]"
| "split_from cur (c # cs) (a # sep) =
     (if prefix (a # sep) (c # cs) then cur # split_from [] (drop (length sep) cs) (a # sep)
      else split_from (cur @ [c]) cs (a # sep))"

definition split :: "str \<Rightarrow> str \<Rightarrow> str list" where
  "split s sep = split_from [] s sep"

text \<open>\<open>sep.join(xs)\<close>.\<close>

fun join :: "str \<Rightarrow> str list \<Rightarrow> str" where
  "join sep [] = []"
| "join sep [x] = x"
| "join sep (x # y # ys) = x @ sep @ join sep (y # ys)"

text \<open>
  The methods \<open>s.lstrip(chars)\<close>, \<open>s.rstrip(chars)\<close> and \<open>s.strip(chars)\<close>: \<open>chars\<close> is
  a set of characters, and the characters of the set are removed from the left end, the
  right end, or both.
\<close>

definition lstrip_chars :: "str \<Rightarrow> str \<Rightarrow> str" where
  "lstrip_chars s chars = dropWhile (\<lambda>c. c \<in> set chars) s"

definition rstrip_chars :: "str \<Rightarrow> str \<Rightarrow> str" where
  "rstrip_chars s chars = rev (dropWhile (\<lambda>c. c \<in> set chars) (rev s))"

definition strip_chars :: "str \<Rightarrow> str \<Rightarrow> str" where
  "strip_chars s chars = lstrip_chars (rstrip_chars s chars) chars"

text \<open>\<open>str(n)\<close> for a length: the decimal digits.\<close>

fun str_of_nat :: "nat \<Rightarrow> str" where
  "str_of_nat n = (if n < 10 then [48 + n] else str_of_nat (n div 10) @ [48 + n mod 10])"

declare str_of_nat.simps [simp del]

section \<open>Data model\<close>

datatype TerrorLevel = NONE | SPOOKY | PASSIVELY_SCARY | ACTIVELY_SCARY

text \<open>
  The exceptions of the program: \<open>AttributeError\<close> (no terror level), \<open>IndexError\<close>
  (list index out of range) and \<open>AssertionError\<close> (the \<open>assert\<close> of \<open>find_room\<close>), each
  with its message, and the \<open>ValueError\<close> of \<open>list.index\<close> for an absent element,
  whose message prints the element and is left out.
\<close>

datatype error = AttributeError str | IndexError str | ValueError | AssertionError str

text \<open>
  A dataclass does not check its annotations: a field declared \<open>int\<close> holds whatever
  value it is given. The nominations field is therefore a Python value, a \<open>str\<close> or an
  \<open>int\<close>.
\<close>

datatype pyval = PyStr str | PyInt int

record EscapeRoom =
  room_name_english :: str
  room_name_original :: "str option"
  company_name :: str
  location :: str
  languages :: "str list"
  terror_level :: TerrorLevel
  phase1_nominations :: pyval
  phase2_rank :: str

record Phase1Room =
  name :: str
  nominations :: pyval
  new :: bool
  terror_level :: TerrorLevel
  languages :: "str list"

record Phase2Room =
  rank :: str
  name :: str
  score :: str
  players :: str
  coverage :: str
  comps :: str
  abstains :: str
  last_years_rank :: "str option"

section \<open>read_phase1: the markers of a line\<close>

definition SUN :: str where "SUN = [0x2600]"
definition GHOST :: str where "GHOST = [0x1F47B]"
definition FLASHLIGHT :: str where "FLASHLIGHT = [0x1F526]"
definition SCREAM :: str where "SCREAM = [0x1F631]"
definition NEW :: str where "NEW = [0x1F195]"

definition parse_terror_level :: "str \<Rightarrow> error + TerrorLevel" where
  "parse_terror_level line =
     (if isin SUN line then Inr NONE
      else if isin GHOST line then Inr SPOOKY
      else if isin FLASHLIGHT line then Inr PASSIVELY_SCARY
      else if isin SCREAM line then Inr ACTIVELY_SCARY
      else Inl (AttributeError
             (ascii ''Couldn'' @ [0x27] @ ascii ''t find a terror level in '' @ [0x27] @ line @ [0x27])))"

text \<open>
  \<open>parse_languages\<close> is a generator: each test that succeeds yields its language, in
  the order of the tests. A flag is a pair of regional indicator code points.
\<close>

definition parse_languages :: "str \<Rightarrow> str list" where
  "parse_languages line =
     (if isin [0x1F1EC, 0x1F1E7] line then [ascii ''English''] else []) @
     (if isin (ascii ''EU'') line then [ascii ''Basque''] else []) @
     (if isin [0x1F1E7, 0x1F1EC] line then [ascii ''Bulgarian''] else []) @
     (if isin (ascii ''CA'') line then [ascii ''Catalan''] else []) @
     (if isin [0x1F1ED, 0x1F1F7] line then [ascii ''Croatian''] else []) @
     (if isin [0x1F1E8, 0x1F1FF] line then [ascii ''Czech''] else []) @
     (if isin [0x1F1E9, 0x1F1F0] line then [ascii ''Danish''] else []) @
     (if isin [0x1F1F3, 0x1F1F1] line then [ascii ''Dutch''] else []) @
     (if isin [0x1F1EA, 0x1F1EA] line then [ascii ''Estonian''] else []) @
     (if isin [0x1F1EB, 0x1F1EE] line then [ascii ''Finnish''] else []) @
     (if isin [0x1F1EB, 0x1F1F7] line then [ascii ''French''] else []) @
     (if isin [0x1F1E9, 0x1F1EA] line then [ascii ''German''] else []) @
     (if isin [0x1F1EC, 0x1F1F7] line then [ascii ''Greek''] else []) @
     (if isin [0x1F1EE, 0x1F1F1] line then [ascii ''Hebrew''] else []) @
     (if isin [0x1F1ED, 0x1F1FA] line then [ascii ''Hungarian''] else []) @
     (if isin [0x1F1EE, 0x1F1F9] line then [ascii ''Italian''] else []) @
     (if isin [0x1F1EF, 0x1F1F5] line then [ascii ''Japanese''] else []) @
     (if isin [0x1F1F1, 0x1F1FB] line then [ascii ''Latvian''] else []) @
     (if isin [0x1F1F1, 0x1F1F9] line then [ascii ''Lithuanian''] else []) @
     (if isin [0x1F1F5, 0x1F1F1] line then [ascii ''Polish''] else []) @
     (if isin [0x1F1F5, 0x1F1F9] line then [ascii ''Portuguese''] else []) @
     (if isin [0x1F1F7, 0x1F1F4] line then [ascii ''Romanian''] else []) @
     (if isin [0x1F1F7, 0x1F1FA] line then [ascii ''Russian''] else []) @
     (if isin [0x1F1F7, 0x1F1F8] line then [ascii ''Serbian''] else []) @
     (if isin [0x1F1F8, 0x1F1F0] line then [ascii ''Slovak''] else []) @
     (if isin [0x1F1F8, 0x1F1EE] line then [ascii ''Slovenian''] else []) @
     (if isin [0x1F1EA, 0x1F1F8] line then [ascii ''Spanish''] else []) @
     (if isin [0x1F1F8, 0x1F1EA] line then [ascii ''Swedish''] else []) @
     (if isin [0x1F1FA, 0x1F1E6] line then [ascii ''Ukrainian''] else [])"



text \<open>
  The body of the loop of \<open>read_phase1\<close>, for one line. The arguments of
  \<open>Phase1Room(...)\<close> are evaluated in the order written: \<open>line.split(" ")[-2]\<close>
  raises IndexError on a line of fewer than two fields before the terror level is
  looked for. The nominations are the stripped field itself, a \<open>str\<close>.
\<close>

definition read_phase1_line :: "str \<Rightarrow> error + Phase1Room" where
  "read_phase1_line line =
     (let fields = split line (ascii '' '') in
      if length fields < 2 then Inl (IndexError (ascii ''list index out of range''))
      else
        case parse_terror_level line of
          Inl e \<Rightarrow> Inl e
        | Inr level \<Rightarrow>
            Inr \<lparr> Phase1Room.name = join (ascii '' '') (take (length fields - 2) fields),
                  nominations = PyStr (strip_chars (fields ! (length fields - 2)) (ascii ''()'')),
                  new = isin NEW line,
                  Phase1Room.terror_level = level,
                  Phase1Room.languages = parse_languages line \<rparr>)"

text \<open>The loop over the lines: the first exception ends it.\<close>

fun read_phase1_lines :: "str list \<Rightarrow> error + Phase1Room list" where
  "read_phase1_lines [] = Inr []"
| "read_phase1_lines (line # rest) =
     (case read_phase1_line line of
        Inl e \<Rightarrow> Inl e
      | Inr room \<Rightarrow>
          (case read_phase1_lines rest of Inl e \<Rightarrow> Inl e | Inr rooms \<Rightarrow> Inr (room # rooms)))"

text \<open>
  The local \<open>_strip\<close> of \<open>read_phase1\<close>, and \<open>read_phase1\<close> itself on the text of the
  paragraph: the text is cut at every \<open><br/>\<close>, the piece after the last one is dropped.
\<close>

definition strip_line :: "str \<Rightarrow> str" where
  "strip_line s =
     last (split (replace (replace (strip_chars s [10]) (ascii ''<strong>'') []) (ascii ''</strong>'') [])
             [10])"

definition read_phase1 :: "str \<Rightarrow> error + Phase1Room list" where
  "read_phase1 text = read_phase1_lines (map strip_line (butlast (split text (ascii ''<br/>''))))"

section \<open>parse_name\<close>

definition PETRA :: str where
  "PETRA = ascii ''Petra - The Lost Kingdom''"

text \<open>The line after the two replacements that open \<open>parse_name\<close>.\<close>

definition clean_line :: "str \<Rightarrow> str" where
  "clean_line line = replace (replace line (ascii ''&amp;'') (ascii ''&'')) NEW []"

text \<open>The local \<open>room_name_part\<close> of \<open>parse_name\<close>, from the cleaned line.\<close>

definition room_name_part :: "str \<Rightarrow> str" where
  "room_name_part line =
     (if isin (ascii ''- Escape Stories - Live Escape Game Wuppertal'') line
      then hd (split line (ascii '' - Escape Stories''))
      else join (ascii '' - '') (butlast (split line (ascii '' - ''))))"

definition parse_name :: "str \<Rightarrow> str \<times> str option \<times> str \<times> str" where
  "parse_name line0 =
     (let line = clean_line line0;
          name_part = room_name_part line;
          name_english = hd (split name_part (ascii ''[''));
          name_original =
            (if isin (ascii ''['') name_part
             then Some (replace (split name_part (ascii ''['') ! 1) (ascii '']'') [])
             else None);
          (name_english, name_original) =
            (if isin PETRA line then (PETRA, Some (ascii ''Petra - El reino perdido''))
             else (name_english, name_original));
          room_location_part = lstrip_chars (replace line name_part []) (ascii '' - '');
          loc = rstrip_chars (last (split room_location_part (ascii ''(''))) (ascii '')'');
          company = strip_chars (replace room_location_part (ascii ''('' @ loc @ ascii '')'') []) (ascii '' '')
      in (name_english, name_original, company, loc))"

section \<open>get_rooms\<close>

text \<open>The first loop: one room for each line of phase 1, not yet ranked.\<close>

definition new_room :: "Phase1Room \<Rightarrow> EscapeRoom" where
  "new_room room =
     (case parse_name (Phase1Room.name room) of
        (name_english, name_original, company, loc) \<Rightarrow>
          \<lparr> room_name_english = name_english,
            room_name_original = name_original,
            company_name = company,
            location = loc,
            EscapeRoom.languages = Phase1Room.languages room,
            EscapeRoom.terror_level = Phase1Room.terror_level room,
            phase1_nominations = nominations room,
            phase2_rank = ascii ''Not ranked'' \<rparr>)"

text \<open>
  \<open>find_room\<close> never reads its second parameter \<open>copmany_name\<close>: the name
  \<open>company_name\<close> in its body is the variable of the enclosing \<open>get_rooms\<close>, here
  the parameter \<open>company\<close>. The rooms are distinct objects held in the list, so the
  reference that \<open>find_room\<close> returns is modelled by its position in the list: the
  position of the first candidate.
\<close>

definition room_candidates :: "EscapeRoom list \<Rightarrow> str \<Rightarrow> str \<Rightarrow> nat list" where
  "room_candidates rooms company english_name =
     filter (\<lambda>i. room_name_english (rooms ! i) = english_name \<and> company_name (rooms ! i) = company)
       [0..<length rooms]"

definition find_room :: "EscapeRoom list \<Rightarrow> str \<Rightarrow> str \<Rightarrow> str \<Rightarrow> error + nat" where
  "find_room rooms company english_name copmany_name =
     (let candidates = room_candidates rooms company english_name in
      if length candidates = 1 then Inr (hd candidates)
      else Inl (AssertionError
             (ascii ''Found '' @ str_of_nat (length candidates) @ ascii '' with name '' @ english_name
              @ ascii '' and company '' @ company)))"

text \<open>
  \<open>rooms.index(x)\<close>: the first position holding a value equal to \<open>x\<close> (a dataclass
  compares by fields); ValueError when there is none. \<open>rooms.pop(i)\<close> removes that position.
\<close>

fun index :: "'a list \<Rightarrow> 'a \<Rightarrow> error + nat" where
  "index [] x = Inl ValueError"
| "index (y # ys) x =
     (if y = x then Inr 0 else case index ys x of Inl e \<Rightarrow> Inl e | Inr i \<Rightarrow> Inr (Suc i))"

definition pop :: "'a list \<Rightarrow> nat \<Rightarrow> 'a list" where
  "pop xs i = take i xs @ drop (Suc i) xs"

definition remove_petra :: "EscapeRoom list \<Rightarrow> error + EscapeRoom list" where
  "remove_petra rooms =
     (case filter (\<lambda>r. room_name_english r = PETRA) rooms of
        [] \<Rightarrow> Inl (IndexError (ascii ''list index out of range''))
      | r # _ \<Rightarrow> (case index rooms r of Inl e \<Rightarrow> Inl e | Inr i \<Rightarrow> Inr (pop rooms i)))"

text \<open>The second loop: each row of phase 2 sets the rank of the room it names.\<close>

fun set_ranks :: "EscapeRoom list \<Rightarrow> Phase2Room list \<Rightarrow> error + EscapeRoom list" where
  "set_ranks rooms [] = Inr rooms"
| "set_ranks rooms (room # rest) =
     (case parse_name (Phase2Room.name room) of
        (name_english, _, company, _) \<Rightarrow>
          (case find_room rooms company name_english company of
             Inl e \<Rightarrow> Inl e
           | Inr i \<Rightarrow> set_ranks (rooms[i := (rooms ! i)\<lparr>phase2_rank := rank room\<rparr>]) rest))"

definition get_rooms :: "Phase1Room list \<Rightarrow> Phase2Room list \<Rightarrow> error + EscapeRoom list" where
  "get_rooms phase1 phase2 =
     (case remove_petra (map new_room phase1) of
        Inl e \<Rightarrow> Inl e
      | Inr rooms \<Rightarrow> set_ranks rooms phase2)"

section \<open>Example listings\<close>

text \<open>
  Small listings on which the theorems below are run: two lines of phase 1 for the
  duplicated room, one without and one with the original name in brackets, a third room,
  and rows of phase 2 that name them, one of them misspelt.
\<close>

definition ex_petra1 :: Phase1Room where
  "ex_petra1 = \<lparr> Phase1Room.name = ascii ''Petra - The Lost Kingdom - Co (X)'',
       nominations = PyStr (ascii ''5''), new = False,
       Phase1Room.terror_level = NONE, Phase1Room.languages = [ascii ''English''] \<rparr>"

definition ex_petra2 :: Phase1Room where
  "ex_petra2 = \<lparr> Phase1Room.name = ascii ''Petra - The Lost Kingdom [Petra - El reino perdido] - Co (X)'',
       nominations = PyStr (ascii ''3''), new = False,
       Phase1Room.terror_level = NONE, Phase1Room.languages = [ascii ''Spanish''] \<rparr>"

definition ex_foo :: Phase1Room where
  "ex_foo = \<lparr> Phase1Room.name = ascii ''Foo - Bar (Y)'',
       nominations = PyStr (ascii ''7''), new = True,
       Phase1Room.terror_level = SPOOKY, Phase1Room.languages = [] \<rparr>"

definition ex_row :: "str \<Rightarrow> str \<Rightarrow> Phase2Room" where
  "ex_row r n = \<lparr> rank = r, Phase2Room.name = n, score = ascii ''9.1'', players = ascii ''40'',
       coverage = ascii ''80%'', comps = ascii ''12'', abstains = ascii ''1'',
       last_years_rank = None \<rparr>"

definition ex_row_petra :: Phase2Room where
  "ex_row_petra = ex_row (ascii ''1'') (ascii ''Petra - The Lost Kingdom - Co (X)'')"

definition ex_row_foo :: Phase2Room where
  "ex_row_foo = ex_row (ascii ''2'') (ascii ''Foo - Bar (Y)'')"

definition ex_row_fooo :: Phase2Room where
  "ex_row_fooo = ex_row (ascii ''2'') (ascii ''Fooo - Bar (Y)'')"

text \<open>
  The line of the scenario of the specification, where the count and the markers stand
  in the middle of the line, and the name that \<open>read_phase1\<close> cuts from it.
\<close>

definition ex_spooky_line :: str where
  "ex_spooky_line = NEW @ ascii '' Spooky Room (12) '' @ GHOST @ ascii '' ''
       @ [0x1F1EC, 0x1F1E7, 0x1F1EB, 0x1F1F7] @ ascii '' - Org (Townsville)''"

definition ex_spooky_name :: str where
  "ex_spooky_name = NEW @ ascii '' Spooky Room (12) '' @ GHOST @ ascii '' ''
       @ [0x1F1EC, 0x1F1E7, 0x1F1EB, 0x1F1F7] @ ascii '' -''"

section \<open>Vocabulary of the statements\<close>

text \<open>
  The pair that \<open>find_room\<close> compares, of a room and of a row of phase 2; the number of
  rooms that a row matches; the message of the assertion of \<open>find_room\<close>.
\<close>

definition room_key :: "EscapeRoom \<Rightarrow> str \<times> str" where
  "room_key r = (room_name_english r, company_name r)"

definition row_key :: "Phase2Room \<Rightarrow> str \<times> str" where
  "row_key row = (case parse_name (Phase2Room.name row) of (name_english, _, company, _) \<Rightarrow> (name_english, company))"

definition matches :: "EscapeRoom list \<Rightarrow> Phase2Room \<Rightarrow> nat" where
  "matches rooms row = length (filter (\<lambda>r. room_key r = row_key row) rooms)"

definition correlation_message :: "nat \<Rightarrow> str \<times> str \<Rightarrow> str" where
  "correlation_message n key =
     ascii ''Found '' @ str_of_nat n @ ascii '' with name '' @ fst key @ ascii '' and company '' @ snd key"

section \<open>The string functions\<close>

text \<open>The functions above on small strings, with the results that Python gives.\<close>

lemma string_examples:
  "replace (ascii ''abc'') [] (ascii ''X'') = ascii ''XaXbXcX''"
  "replace (ascii ''aaa'') (ascii ''aa'') (ascii ''b'') = ascii ''ba''"
  "split (ascii ''a,b,,c'') (ascii '','') = [ascii ''a'', ascii ''b'', [], ascii ''c'']"
  "split [] (ascii '','') = [[]]"
  "split (ascii ''a - b -'') (ascii '' - '') = [ascii ''a'', ascii ''b -'']"
  "join (ascii '' - '') [ascii ''a'', ascii ''b'', ascii ''c''] = ascii ''a - b - c''"
  "lstrip_chars (ascii '' - - x - '') (ascii '' - '') = ascii ''x - ''"
  "rstrip_chars (ascii ''(x))'') (ascii '')'') = ascii ''(x''"
  "strip_chars (ascii ''((12))'') (ascii ''()'') = ascii ''12''"
  "isin (ascii ''b,'') (ascii ''a,b,,c'')"
  "\<not> isin (ascii ''c,'') (ascii ''a,b,,c'')"
  "str_of_nat 0 = ascii ''0''"
  "str_of_nat 120 = ascii ''120''"
  by (simp_all add: split_def lstrip_chars_def rstrip_chars_def strip_chars_def ascii_def
      str_of_nat.simps)

text \<open>
  \<open>split\<close> never returns the empty list, and returns two fields or more when the
  separator occurs: element 0, element \<open>-1\<close> and, under its test, element 1 of the lists
  that \<open>parse_name\<close> indexes exist.
\<close>

lemma split_from_nonempty: "split_from cur s sep \<noteq> []"
  by (induction cur s sep rule: split_from.induct) auto

lemma split_from_isin:
  "isin (a # sep) s \<Longrightarrow> 2 \<le> length (split_from cur s (a # sep))"
proof (induction s arbitrary: cur)
  case Nil
  then show ?case by simp
next
  case (Cons c cs)
  show ?case
  proof (cases "prefix (a # sep) (c # cs)")
    case True
    have "split_from [] (drop (length sep) cs) (a # sep) \<noteq> []"
      by (rule split_from_nonempty)
    then have "1 \<le> length (split_from [] (drop (length sep) cs) (a # sep))"
      by (cases "split_from [] (drop (length sep) cs) (a # sep)") auto
    with True show ?thesis by simp
  next
    case False
    with Cons.prems have "isin (a # sep) cs" by auto
    from Cons.IH [OF this, of "cur @ [c]"] False show ?thesis by auto
  qed
qed

lemma parse_name_indexes:
  "split s sep \<noteq> []"
  "isin (ascii ''['') s \<Longrightarrow> 1 < length (split s (ascii ''[''))"
proof -
  show "split s sep \<noteq> []" by (simp add: split_def split_from_nonempty)
  have "ascii ''['' = [91]" by (simp add: ascii_def)
  then show "isin (ascii ''['') s \<Longrightarrow> 1 < length (split s (ascii ''[''))"
    using split_from_isin [of 91 "[]" s "[]"] by (simp add: split_def)
qed

text \<open>A string occurs in every string written around it.\<close>

lemma isin_Nil: "isin [] s"
  by (cases s) auto











section \<open>The terror level of a line\<close>

text \<open>
  Claim C2. \<open>parse_terror_level\<close> raises exactly when the line holds none of the four
  terror-level markers; the exception is then the AttributeError whose message quotes the
  whole line; a line that holds at least one marker gets a terror level.
\<close>

theorem parse_terror_level_raises_iff:
  "((\<exists>e. parse_terror_level line = Inl e) \<longleftrightarrow>
      \<not> (isin SUN line \<or> isin GHOST line \<or> isin FLASHLIGHT line \<or> isin SCREAM line))
   \<and> ((\<exists>e. parse_terror_level line = Inl e) \<longrightarrow>
         parse_terror_level line = Inl (AttributeError
           (ascii ''Couldn'' @ [0x27] @ ascii ''t find a terror level in '' @ [0x27] @ line @ [0x27])))
   \<and> (isin SUN line \<or> isin GHOST line \<or> isin FLASHLIGHT line \<or> isin SCREAM line \<longrightarrow>
         (\<exists>level. parse_terror_level line = Inr level))"
  by (simp add: parse_terror_level_def)

theorem parse_terror_level_raises_iff_witness:
  "parse_terror_level (ascii ''Room - Org (Town) (3)'') = Inl (AttributeError
       (ascii ''Couldn'' @ [0x27] @ ascii ''t find a terror level in '' @ [0x27]
          @ ascii ''Room - Org (Town) (3)'' @ [0x27]))
   \<and> isin GHOST (ascii ''Room - Org (Town) (3) '' @ GHOST)
   \<and> (\<exists>level. parse_terror_level (ascii ''Room - Org (Town) (3) '' @ GHOST) = Inr level)"
  using parse_terror_level_raises_iff [of "ascii ''Room - Org (Town) (3)''"]
    parse_terror_level_raises_iff [of "ascii ''Room - Org (Town) (3) '' @ GHOST"]
  by (simp add: parse_terror_level_def ascii_def SUN_def GHOST_def FLASHLIGHT_def SCREAM_def)

text \<open>
  Claim C9. A line with several terror-level markers is accepted: the tests run in the
  fixed order sun, ghost, flashlight, scream, and the first marker found decides; that
  there is only one marker is never checked.
\<close>

theorem parse_terror_level_precedence:
  "(isin SUN line \<longrightarrow> parse_terror_level line = Inr NONE)
   \<and> (\<not> isin SUN line \<and> isin GHOST line \<longrightarrow> parse_terror_level line = Inr SPOOKY)
   \<and> (\<not> isin SUN line \<and> \<not> isin GHOST line \<and> isin FLASHLIGHT line \<longrightarrow>
         parse_terror_level line = Inr PASSIVELY_SCARY)
   \<and> (\<not> isin SUN line \<and> \<not> isin GHOST line \<and> \<not> isin FLASHLIGHT line \<and> isin SCREAM line \<longrightarrow>
         parse_terror_level line = Inr ACTIVELY_SCARY)"
  by (simp add: parse_terror_level_def)

theorem parse_terror_level_precedence_witness:
  "isin SUN (SCREAM @ FLASHLIGHT @ GHOST @ SUN) \<and> isin SCREAM (SCREAM @ FLASHLIGHT @ GHOST @ SUN)
   \<and> parse_terror_level (SCREAM @ FLASHLIGHT @ GHOST @ SUN) = Inr NONE
   \<and> \<not> isin SUN (SCREAM @ FLASHLIGHT @ GHOST) \<and> isin GHOST (SCREAM @ FLASHLIGHT @ GHOST)
   \<and> parse_terror_level (SCREAM @ FLASHLIGHT @ GHOST) = Inr SPOOKY
   \<and> \<not> isin SUN (SCREAM @ FLASHLIGHT) \<and> \<not> isin GHOST (SCREAM @ FLASHLIGHT)
   \<and> isin FLASHLIGHT (SCREAM @ FLASHLIGHT)
   \<and> parse_terror_level (SCREAM @ FLASHLIGHT) = Inr PASSIVELY_SCARY
   \<and> \<not> isin SUN SCREAM \<and> \<not> isin GHOST SCREAM \<and> \<not> isin FLASHLIGHT SCREAM \<and> isin SCREAM SCREAM
   \<and> parse_terror_level SCREAM = Inr ACTIVELY_SCARY"
  using parse_terror_level_precedence [of "SCREAM @ FLASHLIGHT @ GHOST @ SUN"]
    parse_terror_level_precedence [of "SCREAM @ FLASHLIGHT @ GHOST"]
    parse_terror_level_precedence [of "SCREAM @ FLASHLIGHT"]
    parse_terror_level_precedence [of "SCREAM"]
  by (simp add: SUN_def GHOST_def FLASHLIGHT_def SCREAM_def)

section \<open>The languages of a line\<close>












section \<open>The examples, evaluated\<close>

lemmas parse_name_eval = parse_name_def clean_line_def room_name_part_def PETRA_def NEW_def
  split_def lstrip_chars_def rstrip_chars_def strip_chars_def ascii_def

lemma parse_name_petra1:
  "parse_name (ascii ''Petra - The Lost Kingdom - Co (X)'')
     = (PETRA, Some (ascii ''Petra - El reino perdido''), ascii ''Co'', ascii ''X'')"
  by (simp add: parse_name_eval)

lemma parse_name_petra2:
  "parse_name (ascii ''Petra - The Lost Kingdom [Petra - El reino perdido] - Co (X)'')
     = (PETRA, Some (ascii ''Petra - El reino perdido''), ascii ''Co'', ascii ''X'')"
  by (simp add: parse_name_eval)

lemma parse_name_foo:
  "parse_name (ascii ''Foo - Bar (Y)'') = (ascii ''Foo'', None, ascii ''Bar'', ascii ''Y'')"
  by (simp add: parse_name_eval)

lemma parse_name_fooo:
  "parse_name (ascii ''Fooo - Bar (Y)'') = (ascii ''Fooo'', None, ascii ''Bar'', ascii ''Y'')"
  by (simp add: parse_name_eval)

lemma new_room_petra1:
  "new_room ex_petra1 = \<lparr> room_name_english = PETRA,
       room_name_original = Some (ascii ''Petra - El reino perdido''),
       company_name = ascii ''Co'', location = ascii ''X'',
       EscapeRoom.languages = [ascii ''English''], EscapeRoom.terror_level = NONE,
       phase1_nominations = PyStr (ascii ''5''), phase2_rank = ascii ''Not ranked'' \<rparr>"
  by (simp add: new_room_def ex_petra1_def parse_name_petra1)

lemma new_room_petra2:
  "new_room ex_petra2 = \<lparr> room_name_english = PETRA,
       room_name_original = Some (ascii ''Petra - El reino perdido''),
       company_name = ascii ''Co'', location = ascii ''X'',
       EscapeRoom.languages = [ascii ''Spanish''], EscapeRoom.terror_level = NONE,
       phase1_nominations = PyStr (ascii ''3''), phase2_rank = ascii ''Not ranked'' \<rparr>"
  by (simp add: new_room_def ex_petra2_def parse_name_petra2)

lemma new_room_foo:
  "new_room ex_foo = \<lparr> room_name_english = ascii ''Foo'', room_name_original = None,
       company_name = ascii ''Bar'', location = ascii ''Y'',
       EscapeRoom.languages = [], EscapeRoom.terror_level = SPOOKY,
       phase1_nominations = PyStr (ascii ''7''), phase2_rank = ascii ''Not ranked'' \<rparr>"
  by (simp add: new_room_def ex_foo_def parse_name_foo)

lemma row_key_examples:
  "row_key ex_row_petra = (PETRA, ascii ''Co'')"
  "row_key ex_row_foo = (ascii ''Foo'', ascii ''Bar'')"
  "row_key ex_row_fooo = (ascii ''Fooo'', ascii ''Bar'')"
  by (simp_all add: row_key_def ex_row_petra_def ex_row_foo_def ex_row_fooo_def ex_row_def
      parse_name_petra1 parse_name_foo parse_name_fooo)

lemma room_key_examples:
  "room_key (new_room ex_petra1) = (PETRA, ascii ''Co'')"
  "room_key (new_room ex_petra2) = (PETRA, ascii ''Co'')"
  "room_key (new_room ex_foo) = (ascii ''Foo'', ascii ''Bar'')"
  by (simp_all add: room_key_def new_room_petra1 new_room_petra2 new_room_foo)

lemma remove_petra_example:
  "remove_petra (map new_room [ex_petra1, ex_petra2, ex_foo]) = Inr [new_room ex_petra2, new_room ex_foo]"
  by (simp add: remove_petra_def pop_def new_room_petra1 new_room_petra2 new_room_foo PETRA_def ascii_def)

lemma remove_petra_example2:
  "remove_petra (map new_room [ex_petra1, ex_petra2, ex_foo, ex_foo])
     = Inr [new_room ex_petra2, new_room ex_foo, new_room ex_foo]"
  by (simp add: remove_petra_def pop_def new_room_petra1 new_room_petra2 new_room_foo PETRA_def ascii_def)

lemma key_distinct_examples:
  "(PETRA, ascii ''Co'') \<noteq> (ascii ''Foo'', ascii ''Bar'')"
  "(PETRA, ascii ''Co'') \<noteq> (ascii ''Fooo'', ascii ''Bar'')"
  "(ascii ''Foo'', ascii ''Bar'') \<noteq> (ascii ''Fooo'', ascii ''Bar'')"
  "(ascii ''Foo'', ascii ''Bar'') \<noteq> (PETRA, ascii ''Co'')"
  by (simp_all add: PETRA_def ascii_def)

lemma matches_examples:
  "matches [new_room ex_petra2, new_room ex_foo] ex_row_petra = 1"
  "matches [new_room ex_petra2, new_room ex_foo] ex_row_fooo = 0"
  "matches [new_room ex_petra2, new_room ex_foo, new_room ex_foo] ex_row_foo = 2"
  using key_distinct_examples
  by (simp_all add: matches_def room_key_examples row_key_examples)

lemma read_phase1_line_spooky:
  "read_phase1_line ex_spooky_line =
     Inr \<lparr> Phase1Room.name = ex_spooky_name, nominations = PyStr (ascii ''Org''), new = True,
           Phase1Room.terror_level = SPOOKY,
           Phase1Room.languages = [ascii ''English'', ascii ''French''] \<rparr>"
  by (simp add: read_phase1_line_def ex_spooky_line_def ex_spooky_name_def split_def strip_chars_def
      lstrip_chars_def rstrip_chars_def parse_terror_level_def parse_languages_def NEW_def GHOST_def SUN_def
      ascii_def)

lemma parse_name_spooky:
  "parse_name ex_spooky_name =
     ([], None,
      ascii ''Spooky Room (12) '' @ GHOST @ ascii '' '' @ [0x1F1EC, 0x1F1E7, 0x1F1EB, 0x1F1F7] @ ascii '' -'',
      ascii ''12) '' @ GHOST @ ascii '' '' @ [0x1F1EC, 0x1F1E7, 0x1F1EB, 0x1F1F7] @ ascii '' -'')"
  by (simp add: ex_spooky_name_def GHOST_def parse_name_eval Let_def)

section \<open>Removing the duplicate\<close>

lemma new_room_english:
  "room_name_english (new_room room) = fst (parse_name (Phase1Room.name room))"
  by (simp add: new_room_def split: prod.splits)

lemma index_first:
  "filter P xs = x # rest \<Longrightarrow> index xs x = Inr (length (takeWhile (\<lambda>y. \<not> P y) xs))"
proof (induction xs)
  case Nil
  then show ?case by simp
next
  case (Cons y ys)
  show ?case
  proof (cases "P y")
    case True
    with Cons.prems show ?thesis by simp
  next
    case False
    with Cons.prems have f: "filter P ys = x # rest" by simp
    then have "x \<in> set (filter P ys)" by simp
    then have "P x" by simp
    with False have "y \<noteq> x" by auto
    with False Cons.IH [OF f] show ?thesis by simp
  qed
qed

lemma pop_first:
  "pop xs (length (takeWhile Q xs)) = takeWhile Q xs @ tl (dropWhile Q xs)"
proof -
  have "take (length (takeWhile Q xs)) xs = takeWhile Q xs"
    by (metis append_eq_conv_conj takeWhile_dropWhile_id)
  moreover have "drop (Suc (length (takeWhile Q xs))) xs = tl (dropWhile Q xs)"
    by (metis append_eq_conv_conj drop_Suc drop_tl takeWhile_dropWhile_id)
  ultimately show ?thesis by (simp add: pop_def)
qed

lemma remove_petra_none:
  "\<not> (\<exists>r \<in> set rooms. room_name_english r = PETRA) \<Longrightarrow>
   remove_petra rooms = Inl (IndexError (ascii ''list index out of range''))"
proof -
  assume "\<not> (\<exists>r \<in> set rooms. room_name_english r = PETRA)"
  then have "filter (\<lambda>r. room_name_english r = PETRA) rooms = []"
    by (simp add: filter_empty_conv)
  then show ?thesis by (simp add: remove_petra_def)
qed

lemma remove_petra_some:
  assumes "\<exists>r \<in> set rooms. room_name_english r = PETRA"
  shows "remove_petra rooms =
     Inr (takeWhile (\<lambda>r. room_name_english r \<noteq> PETRA) rooms
          @ tl (dropWhile (\<lambda>r. room_name_english r \<noteq> PETRA) rooms))"
proof -
  from assms have "filter (\<lambda>r. room_name_english r = PETRA) rooms \<noteq> []"
    by (simp add: filter_empty_conv)
  then obtain x rest where f: "filter (\<lambda>r. room_name_english r = PETRA) rooms = x # rest"
    by (cases "filter (\<lambda>r. room_name_english r = PETRA) rooms") auto
  from index_first [OF f] show ?thesis
    by (simp add: remove_petra_def f pop_first)
qed

text \<open>
  Claim C10. The removal of the duplicate is unconditional. When no line of phase 1 has
  the display name "Petra - The Lost Kingdom", the list of candidates is empty and its
  element 0 raises IndexError, whatever phase 2 holds: \<open>get_rooms\<close> returns nothing.
  When some line has it, the first such room, in the order of the lines, is removed and
  the ranking runs on the rest.
\<close>

theorem get_rooms_petra_removal:
  "(\<not> (\<exists>room \<in> set phase1. fst (parse_name (Phase1Room.name room)) = PETRA) \<longrightarrow>
      get_rooms phase1 phase2 = Inl (IndexError (ascii ''list index out of range'')))
   \<and> ((\<exists>room \<in> set phase1. fst (parse_name (Phase1Room.name room)) = PETRA) \<longrightarrow>
      remove_petra (map new_room phase1) =
        Inr (takeWhile (\<lambda>r. room_name_english r \<noteq> PETRA) (map new_room phase1)
             @ tl (dropWhile (\<lambda>r. room_name_english r \<noteq> PETRA) (map new_room phase1)))
      \<and> get_rooms phase1 phase2 =
        set_ranks (takeWhile (\<lambda>r. room_name_english r \<noteq> PETRA) (map new_room phase1)
             @ tl (dropWhile (\<lambda>r. room_name_english r \<noteq> PETRA) (map new_room phase1))) phase2)"
proof (intro conjI impI)
  assume "\<not> (\<exists>room \<in> set phase1. fst (parse_name (Phase1Room.name room)) = PETRA)"
  then have "\<not> (\<exists>r \<in> set (map new_room phase1). room_name_english r = PETRA)"
    by (simp add: new_room_english)
  from remove_petra_none [OF this]
  show "get_rooms phase1 phase2 = Inl (IndexError (ascii ''list index out of range''))"
    by (simp add: get_rooms_def)
next
  assume "\<exists>room \<in> set phase1. fst (parse_name (Phase1Room.name room)) = PETRA"
  then have "\<exists>r \<in> set (map new_room phase1). room_name_english r = PETRA"
    by (simp add: new_room_english)
  from remove_petra_some [OF this]
  show "remove_petra (map new_room phase1) =
        Inr (takeWhile (\<lambda>r. room_name_english r \<noteq> PETRA) (map new_room phase1)
             @ tl (dropWhile (\<lambda>r. room_name_english r \<noteq> PETRA) (map new_room phase1)))"
    and "get_rooms phase1 phase2 =
        set_ranks (takeWhile (\<lambda>r. room_name_english r \<noteq> PETRA) (map new_room phase1)
             @ tl (dropWhile (\<lambda>r. room_name_english r \<noteq> PETRA) (map new_room phase1))) phase2"
    by (simp_all add: get_rooms_def)
qed

theorem get_rooms_petra_removal_witness:
  "\<not> (\<exists>room \<in> set [ex_foo]. fst (parse_name (Phase1Room.name room)) = PETRA)
   \<and> get_rooms [ex_foo] [ex_row_foo] = Inl (IndexError (ascii ''list index out of range''))
   \<and> (\<exists>room \<in> set [ex_petra1, ex_petra2, ex_foo]. fst (parse_name (Phase1Room.name room)) = PETRA)
   \<and> remove_petra (map new_room [ex_petra1, ex_petra2, ex_foo])
       = Inr [new_room ex_petra2, new_room ex_foo]
   \<and> get_rooms [ex_petra1, ex_petra2, ex_foo] [ex_row_petra]
       = set_ranks [new_room ex_petra2, new_room ex_foo] [ex_row_petra]"
proof -
  have a: "\<not> (\<exists>room \<in> set [ex_foo]. fst (parse_name (Phase1Room.name room)) = PETRA)"
  proof -
    have "fst (parse_name (Phase1Room.name ex_foo)) = ascii ''Foo''"
      by (simp add: ex_foo_def parse_name_foo)
    moreover have "ascii ''Foo'' \<noteq> PETRA"
      by (simp add: PETRA_def ascii_def)
    ultimately show ?thesis by simp
  qed
  have b: "\<exists>room \<in> set [ex_petra1, ex_petra2, ex_foo]. fst (parse_name (Phase1Room.name room)) = PETRA"
    by (simp add: ex_petra1_def parse_name_petra1)
  have c: "takeWhile (\<lambda>r. room_name_english r \<noteq> PETRA) (map new_room [ex_petra1, ex_petra2, ex_foo])
        @ tl (dropWhile (\<lambda>r. room_name_english r \<noteq> PETRA) (map new_room [ex_petra1, ex_petra2, ex_foo]))
      = [new_room ex_petra2, new_room ex_foo]"
    by (simp add: new_room_english ex_petra1_def parse_name_petra1)
  from get_rooms_petra_removal [of "[ex_foo]" "[ex_row_foo]"] a
  have "get_rooms [ex_foo] [ex_row_foo] = Inl (IndexError (ascii ''list index out of range''))"
    by blast
  moreover from get_rooms_petra_removal [of "[ex_petra1, ex_petra2, ex_foo]" "[ex_row_petra]"] b
  have "remove_petra (map new_room [ex_petra1, ex_petra2, ex_foo])
          = Inr [new_room ex_petra2, new_room ex_foo]
        \<and> get_rooms [ex_petra1, ex_petra2, ex_foo] [ex_row_petra]
          = set_ranks [new_room ex_petra2, new_room ex_foo] [ex_row_petra]"
    unfolding c by blast
  ultimately show ?thesis using a b by blast
qed

section \<open>Matching the rows of phase 2\<close>

lemma filter_indices:
  "map ((!) xs) (filter (\<lambda>i. P (xs ! i)) [0..<length xs]) = filter P xs"
proof -
  have "filter P (map ((!) xs) [0..<length xs]) = filter P xs"
    by (simp add: map_nth)
  then show ?thesis by (simp add: filter_map comp_def)
qed

lemma length_room_candidates:
  "length (room_candidates rooms company english_name)
     = length (filter (\<lambda>r. room_key r = (english_name, company)) rooms)"
proof -
  have "length (room_candidates rooms company english_name)
      = length (map ((!) rooms) (room_candidates rooms company english_name))" by simp
  also have "\<dots> = length (filter (\<lambda>r. room_name_english r = english_name \<and> company_name r = company) rooms)"
    unfolding room_candidates_def
    using filter_indices [of rooms "\<lambda>r. room_name_english r = english_name \<and> company_name r = company"]
    by simp
  finally show ?thesis by (simp add: room_key_def)
qed

lemma find_room_row:
  "parse_name (Phase2Room.name row) = (e, orig, c, l) \<Longrightarrow>
   find_room rooms c e c =
     (if matches rooms row = 1 then Inr (hd (room_candidates rooms c e))
      else Inl (AssertionError (correlation_message (matches rooms row) (row_key row))))"
  by (simp add: find_room_def Let_def length_room_candidates matches_def row_key_def
      correlation_message_def)

lemma room_key_update:
  "map room_key (rooms[i := (rooms ! i)\<lparr>phase2_rank := x\<rparr>]) = map room_key rooms"
proof (cases "i < length rooms")
  case True
  then have "(map room_key rooms)[i := room_key (rooms ! i)] = map room_key rooms"
    by (simp add: list_update_same_conv)
  then show ?thesis by (simp add: map_update room_key_def)
next
  case False
  then have "rooms[i := (rooms ! i)\<lparr>phase2_rank := x\<rparr>] = rooms"
    by (intro list_update_beyond) simp
  then show ?thesis by simp
qed

lemma matches_cong:
  "map room_key rooms = map room_key rooms' \<Longrightarrow> matches rooms row = matches rooms' row"
proof -
  assume a: "map room_key rooms = map room_key rooms'"
  have c: "\<And>rs. length (filter (\<lambda>r. room_key r = row_key row) rs)
           = length (filter (\<lambda>k. k = row_key row) (map room_key rs))"
    by (simp add: filter_map comp_def)
  show ?thesis unfolding matches_def c a ..
qed

lemma set_ranks_ok:
  "(\<exists>out. set_ranks rooms rows = Inr out) \<longleftrightarrow> (\<forall>row \<in> set rows. matches rooms row = 1)"
proof (induction rows arbitrary: rooms)
  case Nil
  then show ?case by simp
next
  case (Cons row rows)
  obtain e orig c l where p: "parse_name (Phase2Room.name row) = (e, orig, c, l)"
    by (cases "parse_name (Phase2Room.name row)") auto
  show ?case
  proof (cases "matches rooms row = 1")
    case True
    let ?rooms' = "rooms[hd (room_candidates rooms c e)
                     := (rooms ! hd (room_candidates rooms c e))\<lparr>phase2_rank := rank row\<rparr>]"
    have m: "\<And>r. matches ?rooms' r = matches rooms r"
      by (rule matches_cong) (rule room_key_update)
    from True p have "set_ranks rooms (row # rows) = set_ranks ?rooms' rows"
      by (simp add: find_room_row)
    with Cons.IH [of ?rooms'] True show ?thesis by (simp add: m)
  next
    case False
    with p show ?thesis by (simp add: find_room_row)
  qed
qed

lemma set_ranks_keys:
  "set_ranks rooms rows = Inr out \<Longrightarrow> map room_key out = map room_key rooms"
proof (induction rows arbitrary: rooms)
  case Nil
  then show ?case by simp
next
  case (Cons row rows)
  obtain e orig c l where p: "parse_name (Phase2Room.name row) = (e, orig, c, l)"
    by (cases "parse_name (Phase2Room.name row)") auto
  show ?case
  proof (cases "matches rooms row = 1")
    case True
    let ?rooms' = "rooms[hd (room_candidates rooms c e)
                     := (rooms ! hd (room_candidates rooms c e))\<lparr>phase2_rank := rank row\<rparr>]"
    from True p Cons.prems have "set_ranks ?rooms' rows = Inr out"
      by (simp add: find_room_row)
    from Cons.IH [OF this] show ?thesis by (simp add: room_key_update)
  next
    case False
    with p Cons.prems show ?thesis by (simp add: find_room_row)
  qed
qed

lemma set_ranks_first_failure:
  "\<forall>r \<in> set pre. matches rooms r = 1 \<Longrightarrow> matches rooms row \<noteq> 1 \<Longrightarrow>
   set_ranks rooms (pre @ row # post)
     = Inl (AssertionError (correlation_message (matches rooms row) (row_key row)))"
proof (induction pre arbitrary: rooms)
  case Nil
  obtain e orig c l where p: "parse_name (Phase2Room.name row) = (e, orig, c, l)"
    by (cases "parse_name (Phase2Room.name row)") auto
  with Nil show ?case by (simp add: find_room_row)
next
  case (Cons r pre)
  obtain e orig c l where p: "parse_name (Phase2Room.name r) = (e, orig, c, l)"
    by (cases "parse_name (Phase2Room.name r)") auto
  let ?rooms' = "rooms[hd (room_candidates rooms c e)
                   := (rooms ! hd (room_candidates rooms c e))\<lparr>phase2_rank := rank r\<rparr>]"
  have m: "\<And>r. matches ?rooms' r = matches rooms r"
    by (rule matches_cong) (rule room_key_update)
  from Cons.prems p have "set_ranks rooms ((r # pre) @ row # post) = set_ranks ?rooms' (pre @ row # post)"
    by (simp add: find_room_row)
  moreover from Cons.prems have "set_ranks ?rooms' (pre @ row # post)
     = Inl (AssertionError (correlation_message (matches ?rooms' row) (row_key row)))"
    by (intro Cons.IH) (simp_all add: m)
  ultimately show ?case by (simp add: m)
qed

text \<open>
  Claim C1. After the removal of the duplicate, every row of phase 2 must match exactly
  one room on the pair (English name, company): \<open>get_rooms\<close> returns rooms exactly when
  every row does. At the first row that matches no room or several, it raises the
  AssertionError whose message gives the number of matches, the name and the company
  asked for; an exception returns no rooms, so a row without its room never leaves the
  rooms at "Not ranked" in an output.
\<close>

theorem get_rooms_correlation:
  assumes "remove_petra (map new_room phase1) = Inr rooms"
  shows "((\<exists>out. get_rooms phase1 phase2 = Inr out) \<longleftrightarrow> (\<forall>row \<in> set phase2. matches rooms row = 1))
    \<and> (\<forall>pre row post.
          phase2 = pre @ row # post \<and> (\<forall>r \<in> set pre. matches rooms r = 1) \<and> matches rooms row \<noteq> 1 \<longrightarrow>
          get_rooms phase1 phase2
            = Inl (AssertionError (correlation_message (matches rooms row) (row_key row))))"
  using assms by (auto simp: get_rooms_def set_ranks_ok set_ranks_first_failure)

theorem get_rooms_correlation_witness:
  "remove_petra (map new_room [ex_petra1, ex_petra2, ex_foo]) = Inr [new_room ex_petra2, new_room ex_foo]
   \<and> matches [new_room ex_petra2, new_room ex_foo] ex_row_petra = 1
   \<and> matches [new_room ex_petra2, new_room ex_foo] ex_row_fooo = 0
   \<and> get_rooms [ex_petra1, ex_petra2, ex_foo] [ex_row_petra, ex_row_fooo]
       = Inl (AssertionError (ascii ''Found 0 with name Fooo and company Bar''))
   \<and> remove_petra (map new_room [ex_petra1, ex_petra2, ex_foo, ex_foo])
       = Inr [new_room ex_petra2, new_room ex_foo, new_room ex_foo]
   \<and> matches [new_room ex_petra2, new_room ex_foo, new_room ex_foo] ex_row_foo = 2
   \<and> get_rooms [ex_petra1, ex_petra2, ex_foo, ex_foo] [ex_row_foo]
       = Inl (AssertionError (ascii ''Found 2 with name Foo and company Bar''))"
proof -
  have "get_rooms [ex_petra1, ex_petra2, ex_foo] ([ex_row_petra] @ ex_row_fooo # [])
      = Inl (AssertionError (correlation_message
          (matches [new_room ex_petra2, new_room ex_foo] ex_row_fooo) (row_key ex_row_fooo)))"
    using get_rooms_correlation [OF remove_petra_example, of "[ex_row_petra] @ ex_row_fooo # []",
        THEN conjunct2, rule_format, of "[ex_row_petra]" ex_row_fooo "[]"]
    by (simp add: matches_examples)
  moreover have "get_rooms [ex_petra1, ex_petra2, ex_foo, ex_foo] ([] @ ex_row_foo # [])
      = Inl (AssertionError (correlation_message
          (matches [new_room ex_petra2, new_room ex_foo, new_room ex_foo] ex_row_foo) (row_key ex_row_foo)))"
    using get_rooms_correlation [OF remove_petra_example2, of "[] @ ex_row_foo # []",
        THEN conjunct2, rule_format, of "[]" ex_row_foo "[]"]
    by (simp add: matches_examples)
  ultimately show ?thesis
    using remove_petra_example remove_petra_example2
    by (simp add: matches_examples row_key_examples
        correlation_message_def str_of_nat.simps ascii_def)
qed

section \<open>Decoding a line\<close>

lemma read_phase1_line_total:
  "2 \<le> length (split line (ascii '' '')) \<Longrightarrow>
   isin SUN line \<or> isin GHOST line \<or> isin FLASHLIGHT line \<or> isin SCREAM line \<Longrightarrow>
   \<exists>room. read_phase1_line line = Inr room"
  by (auto simp: read_phase1_line_def Let_def parse_terror_level_def)

lemma read_phase1_line_fields:
  "read_phase1_line line = Inr room \<Longrightarrow> toks = split line (ascii '' '') \<Longrightarrow>
   2 \<le> length toks
   \<and> Phase1Room.name room = join (ascii '' '') (take (length toks - 2) toks)
   \<and> nominations room = PyStr (strip_chars (toks ! (length toks - 2)) (ascii ''()''))
   \<and> new room = isin NEW line
   \<and> parse_terror_level line = Inr (Phase1Room.terror_level room)
   \<and> Phase1Room.languages room = parse_languages line"
  by (auto simp: read_phase1_line_def Let_def split: if_splits sum.splits)

lemma read_phase1_line_no_level:
  "2 \<le> length (split line (ascii '' '')) \<Longrightarrow>
   \<not> isin SUN line \<Longrightarrow> \<not> isin GHOST line \<Longrightarrow> \<not> isin FLASHLIGHT line \<Longrightarrow> \<not> isin SCREAM line \<Longrightarrow>
   read_phase1_line line = Inl (AttributeError
     (ascii ''Couldn'' @ [0x27] @ ascii ''t find a terror level in '' @ [0x27] @ line @ [0x27]))"
  by (simp add: read_phase1_line_def Let_def parse_terror_level_def)

lemma read_phase1_line_short:
  "length (split line (ascii '' '')) < 2 \<Longrightarrow>
   read_phase1_line line = Inl (IndexError (ascii ''list index out of range''))"
  by (simp add: read_phase1_line_def)

text \<open>
  Claim C5. The name of a decoded line is its fields, cut at single spaces, without the
  last two, joined by single spaces (lemma \<open>read_phase1_line_fields\<close>). The nominations
  are declared \<open>int\<close> in \<open>Phase1Room\<close> and in \<open>EscapeRoom\<close>, but \<open>read_phase1\<close> stores the
  field with its parentheses stripped as it is: on a line with the count \<open>(12)\<close> the
  nominations are the string "12", not the integer 12.
\<close>

theorem read_phase1_line_count_is_str:
  "read_phase1_line (ascii ''Room - Org (Town) (12) '' @ GHOST) =
     Inr \<lparr> Phase1Room.name = ascii ''Room - Org (Town)'', nominations = PyStr (ascii ''12''),
           new = False, Phase1Room.terror_level = SPOOKY, Phase1Room.languages = [] \<rparr>"
  by (simp add: read_phase1_line_def split_def strip_chars_def
      lstrip_chars_def rstrip_chars_def parse_terror_level_def parse_languages_def NEW_def GHOST_def SUN_def
      ascii_def)

text \<open>
  Claim C4. On the line of the scenario the count and the markers are not the last two
  fields, so the code reads other values than the specification lists. The flag
  \<open>new\<close>, the terror level and the languages are as listed; the name is the line
  without its last two fields, the field read for the nominations is "Org", and
  \<open>parse_name\<close> finds no " - " in that name: the English name is empty and the company
  and the location are cut from the whole of it.
\<close>

theorem spooky_line_decoded:
  "(case read_phase1_line ex_spooky_line of
      Inl e \<Rightarrow> False
    | Inr room \<Rightarrow>
        Phase1Room.name room = ex_spooky_name \<and> new room
        \<and> Phase1Room.terror_level room = SPOOKY
        \<and> Phase1Room.languages room = [ascii ''English'', ascii ''French''])
   \<and> split ex_spooky_line (ascii '' '') ! (length (split ex_spooky_line (ascii '' '')) - 2) = ascii ''Org''
   \<and> parse_name ex_spooky_name =
     ([], None,
      ascii ''Spooky Room (12) '' @ GHOST @ ascii '' '' @ [0x1F1EC, 0x1F1E7, 0x1F1EB, 0x1F1F7] @ ascii '' -'',
      ascii ''12) '' @ GHOST @ ascii '' '' @ [0x1F1EC, 0x1F1E7, 0x1F1EB, 0x1F1F7] @ ascii '' -'')"
proof -
  have "split ex_spooky_line (ascii '' '') ! (length (split ex_spooky_line (ascii '' '')) - 2) = ascii ''Org''"
    by (simp add: ex_spooky_line_def split_def NEW_def GHOST_def ascii_def)
  then show ?thesis
    by (simp add: read_phase1_line_spooky parse_name_spooky)
qed

theorem spooky_line_counterexample:
  "read_phase1_line ex_spooky_line =
     Inr \<lparr> Phase1Room.name = ex_spooky_name, nominations = PyStr (ascii ''Org''), new = True,
           Phase1Room.terror_level = SPOOKY,
           Phase1Room.languages = [ascii ''English'', ascii ''French''] \<rparr>
   \<and> PyStr (ascii ''Org'') \<noteq> PyInt 12
   \<and> fst (parse_name ex_spooky_name) \<noteq> ascii ''Spooky Room''
   \<and> fst (snd (snd (parse_name ex_spooky_name))) \<noteq> ascii ''Org''
   \<and> snd (snd (snd (parse_name ex_spooky_name))) \<noteq> ascii ''Townsville''"
  by (simp add: read_phase1_line_spooky parse_name_spooky GHOST_def ascii_def)

section \<open>Splitting a name\<close>

text \<open>
  Claim C3. \<open>parse_name\<close> cuts the English name at the first bracket and keeps the space
  before it: for "Foo Bar [Foo Baz] - Acme Co (Springfield)" the English name is
  "Foo Bar " with the space at its end, not "Foo Bar". The original name, the company and
  the location are as the claim lists them; the company is stripped of its spaces, the
  English name is not.
\<close>

theorem parse_name_foo_bar:
  "parse_name (ascii ''Foo Bar [Foo Baz] - Acme Co (Springfield)'')
     = (ascii ''Foo Bar '', Some (ascii ''Foo Baz''), ascii ''Acme Co'', ascii ''Springfield'')"
  by (simp add: parse_name_eval)

section \<open>The duplicate and its row\<close>

lemma filter_takeWhile_not: "filter P (takeWhile (\<lambda>x. \<not> P x) xs) = []"
  by (induction xs) auto

lemma filter_tl_dropWhile_not: "filter P (tl (dropWhile (\<lambda>x. \<not> P x) xs)) = tl (filter P xs)"
  by (induction xs) auto

lemma filter_remove_first:
  "filter P (takeWhile (\<lambda>x. \<not> P x) xs @ tl (dropWhile (\<lambda>x. \<not> P x) xs)) = tl (filter P xs)"
  by (simp add: filter_takeWhile_not filter_tl_dropWhile_not)

lemma new_room_rank: "phase2_rank (new_room room) = ascii ''Not ranked''"
  by (simp add: new_room_def split: prod.splits)

lemma set_remove_first_subset:
  "set (takeWhile Q xs @ tl (dropWhile Q xs)) \<subseteq> set xs"
proof -
  have "set (tl ys) \<subseteq> set ys" for ys :: "'a list"
    by (cases ys) auto
  then have "set (tl (dropWhile Q xs)) \<subseteq> set (dropWhile Q xs)" .
  then show ?thesis
    by (auto dest: set_takeWhileD set_dropWhileD)
qed

text \<open>A single row that matches one room: the rank of that room is set.\<close>

lemma set_ranks_single:
  assumes one: "filter (\<lambda>r. room_key r = row_key row) rooms = [d]"
  shows "set_ranks rooms [row]
     = Inr (map (\<lambda>r. if room_key r = row_key row then r\<lparr>phase2_rank := rank row\<rparr> else r) rooms)"
proof -
  obtain e orig c l where p: "parse_name (Phase2Room.name row) = (e, orig, c, l)"
    by (cases "parse_name (Phase2Room.name row)") auto
  then have k: "row_key row = (e, c)" by (simp add: row_key_def)
  let ?P = "\<lambda>r. room_key r = row_key row"
  let ?cands = "room_candidates rooms c e"
  have cands: "?cands = filter (\<lambda>i. ?P (rooms ! i)) [0..<length rooms]"
    by (simp add: room_candidates_def room_key_def k)
  from one have m: "matches rooms row = 1" by (simp add: matches_def)
  then have "length ?cands = 1" by (simp add: length_room_candidates matches_def k)
  then obtain i where i: "?cands = [i]"
    by (cases ?cands) auto
  then have "i \<in> set (filter (\<lambda>i. ?P (rooms ! i)) [0..<length rooms])"
    using cands by simp
  then have il: "i < length rooms" and ip: "?P (rooms ! i)" by auto
  have uniq: "j = i" if "j < length rooms" "?P (rooms ! j)" for j
  proof -
    from that have "j \<in> set (filter (\<lambda>i. ?P (rooms ! i)) [0..<length rooms])" by simp
    also have "filter (\<lambda>i. ?P (rooms ! i)) [0..<length rooms] = [i]"
      using cands i by (rule trans [OF sym])
    finally show ?thesis by simp
  qed
  have "rooms[i := (rooms ! i)\<lparr>phase2_rank := rank row\<rparr>]
      = map (\<lambda>r. if ?P r then r\<lparr>phase2_rank := rank row\<rparr> else r) rooms"
  proof (rule nth_equalityI)
    show "length (rooms[i := (rooms ! i)\<lparr>phase2_rank := rank row\<rparr>])
          = length (map (\<lambda>r. if ?P r then r\<lparr>phase2_rank := rank row\<rparr> else r) rooms)"
      by simp
  next
    fix j assume "j < length (rooms[i := (rooms ! i)\<lparr>phase2_rank := rank row\<rparr>])"
    then have jl: "j < length rooms" by simp
    show "rooms[i := (rooms ! i)\<lparr>phase2_rank := rank row\<rparr>] ! j
          = map (\<lambda>r. if ?P r then r\<lparr>phase2_rank := rank row\<rparr> else r) rooms ! j"
    proof (cases "j = i")
      case True
      with il ip show ?thesis by simp
    next
      case False
      with uniq [OF jl] have "\<not> ?P (rooms ! j)" by blast
      with False jl show ?thesis by simp
    qed
  qed
  moreover from p m i have "set_ranks rooms [row]
      = Inr (rooms[i := (rooms ! i)\<lparr>phase2_rank := rank row\<rparr>])"
    by (simp add: find_room_row)
  ultimately show ?thesis by simp
qed

text \<open>
  Claim C7, as the code has it. When exactly two lines of phase 1 have the display name
  of the duplicate and the one row of phase 2 carries the pair (English name, company)
  of the second of them, \<open>get_rooms\<close> returns the rooms without the first of the two:
  one room has that display name, its rank is the rank of the row, every other room
  stays "Not ranked", and the pair of the row occurs once. The pairs of the other rooms
  are never compared: the pairs of the output are distinct exactly when those of the
  lines of phase 1, the removed one apart, are.
\<close>

theorem get_rooms_duplicate_collapse:
  assumes two: "filter (\<lambda>r. room_name_english r = PETRA) (map new_room phase1) = [d1, d2]"
      and key: "row_key row = room_key d2"
      and rest: "rest = takeWhile (\<lambda>r. room_name_english r \<noteq> PETRA) (map new_room phase1)
                   @ tl (dropWhile (\<lambda>r. room_name_english r \<noteq> PETRA) (map new_room phase1))"
      and out: "out = map (\<lambda>r. if room_name_english r = PETRA then r\<lparr>phase2_rank := rank row\<rparr> else r) rest"
  shows "get_rooms phase1 [row] = Inr out
     \<and> filter (\<lambda>r. room_name_english r = PETRA) out = [d2\<lparr>phase2_rank := rank row\<rparr>]
     \<and> (\<forall>r \<in> set out. room_name_english r \<noteq> PETRA \<longrightarrow> phase2_rank r = ascii ''Not ranked'')
     \<and> length (filter (\<lambda>r. room_key r = row_key row) out) = 1
     \<and> (distinct (map room_key out) \<longleftrightarrow> distinct (map room_key rest))"
proof -
  let ?Q = "\<lambda>r. room_name_english r = PETRA"
  let ?f = "\<lambda>r. if ?Q r then r\<lparr>phase2_rank := rank row\<rparr> else r"
  from two have "d1 \<in> set (filter ?Q (map new_room phase1))" by simp
  then have ex: "\<exists>r \<in> set (map new_room phase1). ?Q r" by auto
  have rm: "remove_petra (map new_room phase1) = Inr rest"
    unfolding rest by (rule remove_petra_some [OF ex])
  have fq: "filter ?Q rest = [d2]"
    unfolding rest using filter_remove_first [of ?Q "map new_room phase1"] two by simp
  then have "d2 \<in> set (filter ?Q rest)" by simp
  then have qd2: "?Q d2" by simp
  have imp: "?Q r" if "room_key r = row_key row" for r
    using that qd2 by (simp add: key room_key_def)
  have same: "(room_key r = row_key row) = ?Q r" if "r \<in> set rest" for r
  proof
    assume "room_key r = row_key row" then show "?Q r" by (rule imp)
  next
    assume "?Q r"
    with that have "r \<in> set (filter ?Q rest)" by simp
    with fq have "r = d2" by simp
    then show "room_key r = row_key row" by (simp add: key)
  qed
  have fk: "filter (\<lambda>r. room_key r = row_key row) rest = [d2]"
    using fq same by (metis (mono_tags, lifting) filter_cong)
  have mp: "map (\<lambda>r. if room_key r = row_key row then r\<lparr>phase2_rank := rank row\<rparr> else r) rest = out"
    unfolding out using same by (intro map_cong) auto
  from set_ranks_single [OF fk] have sr: "set_ranks rest [row] = Inr out"
    by (simp add: mp)
  with rm have g: "get_rooms phase1 [row] = Inr out"
    by (simp add: get_rooms_def)
  have keys: "map room_key out = map room_key rest"
    using sr by (rule set_ranks_keys)
  have "filter ?Q out = map ?f (filter (?Q \<circ> ?f) rest)"
    unfolding out by (simp add: filter_map)
  also have "?Q \<circ> ?f = ?Q" by (auto simp: fun_eq_iff)
  finally have fo: "filter ?Q out = [d2\<lparr>phase2_rank := rank row\<rparr>]"
    using fq qd2 by simp
  have nr: "\<forall>r \<in> set out. \<not> ?Q r \<longrightarrow> phase2_rank r = ascii ''Not ranked''"
  proof (intro ballI impI)
    fix r assume "r \<in> set out" "\<not> ?Q r"
    then obtain r0 where r0: "r0 \<in> set rest" "r = ?f r0" unfolding out by auto
    with \<open>\<not> ?Q r\<close> have "r = r0" by (auto split: if_splits)
    moreover from r0 have "r0 \<in> set (map new_room phase1)"
      using set_remove_first_subset [of "\<lambda>r. room_name_english r \<noteq> PETRA" "map new_room phase1"]
      unfolding rest by blast
    ultimately show "phase2_rank r = ascii ''Not ranked''"
      by (auto simp: new_room_rank)
  qed
  have cnt: "length (filter (\<lambda>r. room_key r = row_key row) out) = 1"
  proof -
    have "length (filter (\<lambda>r. room_key r = row_key row) out)
        = length (filter (\<lambda>k. k = row_key row) (map room_key out))"
      by (simp add: filter_map comp_def)
    also have "\<dots> = length (filter (\<lambda>r. room_key r = row_key row) rest)"
      unfolding keys by (simp add: filter_map comp_def)
    finally show ?thesis by (simp add: fk)
  qed
  from g fo nr cnt keys show ?thesis by simp
qed

lemma petra_ne_foo: "ascii ''Foo'' \<noteq> PETRA"
  by (simp add: PETRA_def ascii_def)

lemma english_examples:
  "room_name_english (new_room ex_petra1) = PETRA"
  "room_name_english (new_room ex_petra2) = PETRA"
  "room_name_english (new_room ex_foo) = ascii ''Foo''"
  by (simp_all add: new_room_petra1 new_room_petra2 new_room_foo)

theorem get_rooms_duplicate_collapse_witness:
  "filter (\<lambda>r. room_name_english r = PETRA) (map new_room [ex_petra1, ex_petra2, ex_foo])
     = [new_room ex_petra1, new_room ex_petra2]
   \<and> row_key ex_row_petra = room_key (new_room ex_petra2)
   \<and> get_rooms [ex_petra1, ex_petra2, ex_foo] [ex_row_petra]
     = Inr [(new_room ex_petra2)\<lparr>phase2_rank := ascii ''1''\<rparr>, new_room ex_foo]
   \<and> distinct (map room_key [(new_room ex_petra2)\<lparr>phase2_rank := ascii ''1''\<rparr>, new_room ex_foo])"
proof -
  have two: "filter (\<lambda>r. room_name_english r = PETRA) (map new_room [ex_petra1, ex_petra2, ex_foo])
     = [new_room ex_petra1, new_room ex_petra2]"
    by (simp add: english_examples petra_ne_foo)
  have key: "row_key ex_row_petra = room_key (new_room ex_petra2)"
    by (simp add: row_key_examples room_key_examples)
  have rest: "[new_room ex_petra2, new_room ex_foo]
      = takeWhile (\<lambda>r. room_name_english r \<noteq> PETRA) (map new_room [ex_petra1, ex_petra2, ex_foo])
        @ tl (dropWhile (\<lambda>r. room_name_english r \<noteq> PETRA) (map new_room [ex_petra1, ex_petra2, ex_foo]))"
    by (simp add: english_examples)
  have out: "[(new_room ex_petra2)\<lparr>phase2_rank := ascii ''1''\<rparr>, new_room ex_foo]
      = map (\<lambda>r. if room_name_english r = PETRA then r\<lparr>phase2_rank := rank ex_row_petra\<rparr> else r)
          [new_room ex_petra2, new_room ex_foo]"
    by (simp add: english_examples petra_ne_foo ex_row_petra_def ex_row_def)
  have d: "distinct (map room_key [new_room ex_petra2, new_room ex_foo])"
    using key_distinct_examples by (simp add: room_key_examples)
  from get_rooms_duplicate_collapse [OF two key rest out] d two key
  show ?thesis by simp
qed

text \<open>
  The claim as stated fails on the third part: with a room that two further lines of
  phase 1 share, the output holds its pair twice.
\<close>

theorem unique_pairs_counterexample:
  "map room_name_english (map new_room [ex_petra1, ex_petra2, ex_foo, ex_foo])
     = [PETRA, PETRA, ascii ''Foo'', ascii ''Foo'']
   \<and> ascii ''Foo'' \<noteq> PETRA
   \<and> row_key ex_row_petra = room_key (new_room ex_petra2)
   \<and> get_rooms [ex_petra1, ex_petra2, ex_foo, ex_foo] [ex_row_petra]
     = Inr [(new_room ex_petra2)\<lparr>phase2_rank := ascii ''1''\<rparr>, new_room ex_foo, new_room ex_foo]
   \<and> \<not> distinct (map room_key
          [(new_room ex_petra2)\<lparr>phase2_rank := ascii ''1''\<rparr>, new_room ex_foo, new_room ex_foo])"
proof -
  have two: "filter (\<lambda>r. room_name_english r = PETRA) (map new_room [ex_petra1, ex_petra2, ex_foo, ex_foo])
     = [new_room ex_petra1, new_room ex_petra2]"
    by (simp add: english_examples petra_ne_foo)
  have key: "row_key ex_row_petra = room_key (new_room ex_petra2)"
    by (simp add: row_key_examples room_key_examples)
  have rest: "[new_room ex_petra2, new_room ex_foo, new_room ex_foo]
      = takeWhile (\<lambda>r. room_name_english r \<noteq> PETRA) (map new_room [ex_petra1, ex_petra2, ex_foo, ex_foo])
        @ tl (dropWhile (\<lambda>r. room_name_english r \<noteq> PETRA) (map new_room [ex_petra1, ex_petra2, ex_foo, ex_foo]))"
    by (simp add: english_examples)
  have out: "[(new_room ex_petra2)\<lparr>phase2_rank := ascii ''1''\<rparr>, new_room ex_foo, new_room ex_foo]
      = map (\<lambda>r. if room_name_english r = PETRA then r\<lparr>phase2_rank := rank ex_row_petra\<rparr> else r)
          [new_room ex_petra2, new_room ex_foo, new_room ex_foo]"
    by (simp add: english_examples petra_ne_foo ex_row_petra_def ex_row_def)
  have rk: "rank ex_row_petra = ascii ''1''"
    by (simp add: ex_row_petra_def ex_row_def)
  have fk: "filter (\<lambda>r. room_key r = row_key ex_row_petra)
      [new_room ex_petra2, new_room ex_foo, new_room ex_foo] = [new_room ex_petra2]"
    using key_distinct_examples by (simp add: room_key_examples row_key_examples)
  have mp: "map (\<lambda>r. if room_key r = row_key ex_row_petra then r\<lparr>phase2_rank := rank ex_row_petra\<rparr> else r)
      [new_room ex_petra2, new_room ex_foo, new_room ex_foo]
      = [(new_room ex_petra2)\<lparr>phase2_rank := ascii ''1''\<rparr>, new_room ex_foo, new_room ex_foo]"
    by (simp add: room_key_examples row_key_examples rk petra_ne_foo petra_ne_foo [symmetric])
  have g: "get_rooms [ex_petra1, ex_petra2, ex_foo, ex_foo] [ex_row_petra]
     = Inr [(new_room ex_petra2)\<lparr>phase2_rank := ascii ''1''\<rparr>, new_room ex_foo, new_room ex_foo]"
    using remove_petra_example2 set_ranks_single [OF fk] mp
    by (simp add: get_rooms_def)
  from g key show ?thesis
    by (simp add: english_examples petra_ne_foo room_key_def)
qed

section \<open>The company with a separator in its name\<close>















end
